theory Spec2Isabelle
  imports Main
begin

section \<open>Python values\<close>

text \<open>
  A metadata record, a remote response and a CSV row are JSON-compatible Python values.
  A dictionary is an association list in insertion order; its keys are taken to be
  distinct, as in Python.
\<close>

datatype pyval =
    PNone
  | PBool bool
  | PInt int
  | PStr string
  | PList "pyval list"
  | PDict "(string \<times> pyval) list"

text \<open>Python's truth test, as used by \<^verbatim>\<open>if x:\<close> and \<^verbatim>\<open>if not x:\<close>.\<close>

fun truthy :: "pyval \<Rightarrow> bool" where
  "truthy PNone = False"
| "truthy (PBool b) = b"
| "truthy (PInt i) = (i \<noteq> 0)"
| "truthy (PStr s) = (s \<noteq> [])"
| "truthy (PList xs) = (xs \<noteq> [])"
| "truthy (PDict d) = (d \<noteq> [])"

text \<open>
  Exceptions. \<open>HDXError template args cause\<close> is \<^verbatim>\<open>HDXError(template % args)\<close>, with
  the cause of \<^verbatim>\<open>raise ... from e\<close> when there is one. \<open>ExternalError\<close> is any exception
  raised by code outside \<^verbatim>\<open>resource.py\<close> (the transport, the file system, a parser).
\<close>

datatype exn =
    HDXError string "pyval list" "exn option"
  | KeyError string
  | TypeError
  | AttributeError
  | ExternalError string

text \<open>\<^verbatim>\<open>obj[key]\<close> with a string key.\<close>

fun py_getitem :: "pyval \<Rightarrow> string \<Rightarrow> exn + pyval" where
  "py_getitem (PDict d) key =
     (case map_of d key of Some v \<Rightarrow> Inr v | None \<Rightarrow> Inl (KeyError key))"
| "py_getitem v key = Inl TypeError"

text \<open>\<^verbatim>\<open>obj.get(key, default)\<close>.\<close>

fun py_get :: "pyval \<Rightarrow> string \<Rightarrow> pyval \<Rightarrow> exn + pyval" where
  "py_get (PDict d) key dflt =
     Inr (case map_of d key of Some v \<Rightarrow> v | None \<Rightarrow> dflt)"
| "py_get v key dflt = Inl AttributeError"

text \<open>\<^verbatim>\<open>for x in obj\<close>: the elements a value yields when iterated.\<close>

fun py_iter :: "pyval \<Rightarrow> exn + pyval list" where
  "py_iter (PList xs) = Inr xs"
| "py_iter (PDict d) = Inr (map (\<lambda>kv. PStr (fst kv)) d)"
| "py_iter (PStr s) = Inr (map (\<lambda>c. PStr [c]) s)"
| "py_iter v = Inl TypeError"

section \<open>The outside world\<close>

text \<open>
  Every call that leaves \<^verbatim>\<open>resource.py\<close> is an event. A trace lists the events of a run
  in program order, each with its outcome.
\<close>

datatype event =
    Read_from_hdx string pyval string "string option" "(string \<times> pyval) list"
  | Write_to_hdx string pyval string
  | Download_file pyval pyval
  | Load_yaml string
  | Load_json string
  | Open_file string
  | Csv_read string
  | Close_file string
  | Unlink string
  | Log_debug string "pyval list"

datatype outcome = Ok | Raised exn

type_synonym trace = "(event \<times> outcome) list"

text \<open>
  The code this file calls and does not contain (\<^verbatim>\<open>HDXObject._read_from_hdx\<close>,
  \<^verbatim>\<open>HDXObject._write_to_hdx\<close>, \<^verbatim>\<open>download_file\<close>, \<^verbatim>\<open>open\<close>, \<^verbatim>\<open>csv.DictReader\<close>,
  \<^verbatim>\<open>f.close\<close>, \<^verbatim>\<open>os.unlink\<close>, \<^verbatim>\<open>load_yaml\<close>, \<^verbatim>\<open>load_json\<close>,
  \<^verbatim>\<open>script_dir_plus_file\<close>) is a parameter: what each
  call answers, given the trace so far and its arguments. An answer \<open>Inl e\<close> is the
  exception the call raises.
\<close>

record env =
  ext_read_from_hdx ::
    "trace \<Rightarrow> string \<Rightarrow> pyval \<Rightarrow> string \<Rightarrow> string option \<Rightarrow> (string \<times> pyval) list
       \<Rightarrow> exn + bool \<times> pyval"
  ext_write_to_hdx :: "trace \<Rightarrow> string \<Rightarrow> pyval \<Rightarrow> string \<Rightarrow> exn + pyval"
  ext_download_file :: "trace \<Rightarrow> pyval \<Rightarrow> pyval \<Rightarrow> exn + string"
  ext_open :: "trace \<Rightarrow> string \<Rightarrow> exn + unit"
  ext_csv_rows :: "trace \<Rightarrow> string \<Rightarrow> exn + pyval list"
  ext_close :: "trace \<Rightarrow> string \<Rightarrow> exn + unit"
  ext_unlink :: "trace \<Rightarrow> string \<Rightarrow> exn + unit"
  ext_load_yaml :: "trace \<Rightarrow> string \<Rightarrow> exn + pyval"
  ext_load_json :: "trace \<Rightarrow> string \<Rightarrow> exn + pyval"
  ext_script_dir_plus_file :: "string \<Rightarrow> string"

definition perform :: "event \<Rightarrow> exn + 'a \<Rightarrow> trace \<Rightarrow> (exn + 'a) \<times> trace" where
  "perform ev res tr =
     (res, tr @ [(ev, case res of Inl e \<Rightarrow> Raised e | Inr v \<Rightarrow> Ok)])"

definition log_debug :: "string \<Rightarrow> pyval list \<Rightarrow> trace \<Rightarrow> trace" where
  "log_debug template args tr = tr @ [(Log_debug template args, Ok)]"

text \<open>\<^verbatim>\<open>self._read_from_hdx(object_type, value, fieldname, action, **kwargs)\<close>; the action is
  \<open>None\<close> when the caller passes none.\<close>

definition hdx_read_from_hdx ::
  "env \<Rightarrow> string \<Rightarrow> pyval \<Rightarrow> string \<Rightarrow> string option \<Rightarrow> (string \<times> pyval) list \<Rightarrow> trace
     \<Rightarrow> (exn + bool \<times> pyval) \<times> trace" where
  "hdx_read_from_hdx env object_type val fieldname action kwargs tr =
     perform (Read_from_hdx object_type val fieldname action kwargs)
       (ext_read_from_hdx env tr object_type val fieldname action kwargs) tr"

text \<open>\<^verbatim>\<open>self._write_to_hdx(action, data, id_field_name)\<close>.\<close>

definition hdx_write_to_hdx ::
  "env \<Rightarrow> string \<Rightarrow> pyval \<Rightarrow> string \<Rightarrow> trace \<Rightarrow> (exn + pyval) \<times> trace" where
  "hdx_write_to_hdx env action d id_field_name tr =
     perform (Write_to_hdx action d id_field_name)
       (ext_write_to_hdx env tr action d id_field_name) tr"

section \<open>The Resource class\<close>

record resource =
  data :: pyval

text \<open>
  \<^verbatim>\<open>Resource.__init__\<close>: an absent or empty \<open>initial_data\<close> becomes the empty dictionary.
  \<^verbatim>\<open>HDXObject.__init__\<close> is taken to store it as \<^verbatim>\<open>self.data\<close>.
\<close>

definition Resource :: "pyval \<Rightarrow> resource" where
  "Resource initial_data =
     \<lparr>data = (if \<not> truthy initial_data then PDict [] else initial_data)\<rparr>"

definition actions :: "(string \<times> string) list" where
  "actions =
     [(''show'', ''resource_show''),
      (''update'', ''resource_update''),
      (''create'', ''resource_create''),
      (''delete'', ''resource_delete''),
      (''search'', ''resource_search''),
      (''datastore_delete'', ''datastore_delete''),
      (''datastore_create'', ''datastore_create''),
      (''datastore_upsert'', ''datastore_upsert'')]"

text \<open>\<^verbatim>\<open>self.actions()[key]\<close>.\<close>

definition action :: "string \<Rightarrow> exn + string" where
  "action key = (case map_of actions key of Some a \<Rightarrow> Inr a | None \<Rightarrow> Inl (KeyError key))"

subsection \<open>Methods of HDXObject\<close>

text \<open>
  Modelled from the spec: \<^verbatim>\<open>HDXObject._load_from_hdx\<close> (\<^verbatim>\<open>hdxobject.py\<close> is not among the
  sources). Section 4.1, read: it issues the type's \<open>show\<close> action for the identifier; on
  success the record is populated from the remote response; an ordinary not-found is an
  outcome and not an error; only a failure of the transport raises.
\<close>

definition hdx_load_from_hdx ::
  "env \<Rightarrow> resource \<Rightarrow> string \<Rightarrow> pyval \<Rightarrow> trace \<Rightarrow> (exn + bool \<times> resource) \<times> trace" where
  "hdx_load_from_hdx env r object_type identifier tr =
     (case action ''show'' of
        Inl e \<Rightarrow> (Inl e, tr)
      | Inr show \<Rightarrow>
          (case hdx_read_from_hdx env object_type identifier ''id'' (Some show) [] tr of
             (Inl e, tr1) \<Rightarrow> (Inl e, tr1)
           | (Inr (success, result), tr1) \<Rightarrow>
               if success then (Inr (True, r\<lparr>data := result\<rparr>), tr1)
               else (Inr (False, r), tr1)))"

text \<open>
  Modelled from the spec: the identifier check of \<^verbatim>\<open>HDXObject._update_in_hdx\<close> and
  \<^verbatim>\<open>HDXObject._delete_from_hdx\<close> (\<^verbatim>\<open>hdxobject.py\<close> is not among the sources). Section 3:
  a record passed to an update or delete call must carry a non-empty identifier field.
\<close>

definition identifier_of :: "resource \<Rightarrow> string \<Rightarrow> pyval option" where
  "identifier_of r id_field_name =
     (case data r of
        PDict d \<Rightarrow>
          (case map_of d id_field_name of
             Some v \<Rightarrow> if truthy v then Some v else None
           | None \<Rightarrow> None)
      | _ \<Rightarrow> None)"

text \<open>
  Modelled from the spec: \<^verbatim>\<open>HDXObject._update_in_hdx\<close> (\<^verbatim>\<open>hdxobject.py\<close> is not among the
  sources). Section 4.1, update: it requires the identifier to be present and issues the
  type's \<open>update\<close> action; sections 3 and 8: a missing identifier is a usage error, raised
  before any remote call is attempted.
\<close>

definition hdx_update_in_hdx ::
  "env \<Rightarrow> resource \<Rightarrow> string \<Rightarrow> string \<Rightarrow> trace \<Rightarrow> (exn + unit) \<times> trace" where
  "hdx_update_in_hdx env r object_type id_field_name tr =
     (case identifier_of r id_field_name of
        None \<Rightarrow>
          (Inl (HDXError ''%s has no %s'' [PStr object_type, PStr id_field_name] None), tr)
      | Some ident \<Rightarrow>
          (case hdx_write_to_hdx env ''update'' (data r) id_field_name tr of
             (Inl e, tr1) \<Rightarrow> (Inl e, tr1)
           | (Inr res, tr1) \<Rightarrow> (Inr (), tr1)))"

text \<open>
  Modelled from the spec: \<^verbatim>\<open>HDXObject._delete_from_hdx\<close> (\<^verbatim>\<open>hdxobject.py\<close> is not among
  the sources). Section 4.1, delete: it requires the identifier and issues the type's
  \<open>delete\<close> action; section 3: a missing identifier is a usage error.
\<close>

definition hdx_delete_from_hdx ::
  "env \<Rightarrow> resource \<Rightarrow> string \<Rightarrow> string \<Rightarrow> trace \<Rightarrow> (exn + unit) \<times> trace" where
  "hdx_delete_from_hdx env r object_type id_field_name tr =
     (case identifier_of r id_field_name of
        None \<Rightarrow>
          (Inl (HDXError ''%s has no %s'' [PStr object_type, PStr id_field_name] None), tr)
      | Some ident \<Rightarrow>
          (case hdx_write_to_hdx env ''delete'' (data r) id_field_name tr of
             (Inl e, tr1) \<Rightarrow> (Inl e, tr1)
           | (Inr res, tr1) \<Rightarrow> (Inr (), tr1)))"

subsection \<open>Methods of Resource\<close>

text \<open>\<^verbatim>\<open>Resource.read_from_hdx(configuration, identifier)\<close>.\<close>

definition read_from_hdx :: "env \<Rightarrow> string \<Rightarrow> trace \<Rightarrow> (exn + resource option) \<times> trace" where
  "read_from_hdx env identifier tr =
     (let resource = Resource PNone in
      case hdx_load_from_hdx env resource ''resource'' (PStr identifier) tr of
        (Inl e, tr1) \<Rightarrow> (Inl e, tr1)
      | (Inr (result, resource'), tr1) \<Rightarrow>
          if result then (Inr (Some resource'), tr1) else (Inr None, tr1))"

definition update_in_hdx :: "env \<Rightarrow> resource \<Rightarrow> trace \<Rightarrow> (exn + unit) \<times> trace" where
  "update_in_hdx env r tr = hdx_update_in_hdx env r ''resource'' ''id'' tr"

definition delete_from_hdx :: "env \<Rightarrow> resource \<Rightarrow> trace \<Rightarrow> (exn + unit) \<times> trace" where
  "delete_from_hdx env r tr = hdx_delete_from_hdx env r ''resource'' ''id'' tr"

text \<open>
  \<^verbatim>\<open>Resource.search_in_hdx(configuration, query, **kwargs)\<close>. The keyword arguments are
  accepted and not used; \<open>success\<close> is not looked at.
\<close>

definition search_in_hdx ::
  "env \<Rightarrow> string \<Rightarrow> (string \<times> pyval) list \<Rightarrow> trace \<Rightarrow> (exn + resource list) \<times> trace" where
  "search_in_hdx env query kwargs tr =
     (case hdx_read_from_hdx env ''resource'' (PStr query) ''query'' None [] tr of
        (Inl e, tr1) \<Rightarrow> (Inl e, tr1)
      | (Inr (success, result), tr1) \<Rightarrow>
          if truthy result then
            (case py_get result ''count'' PNone of
               Inl e \<Rightarrow> (Inl e, tr1)
             | Inr count \<Rightarrow>
                 if truthy count then
                   (case py_getitem result ''results'' of
                      Inl e \<Rightarrow> (Inl e, tr1)
                    | Inr results \<Rightarrow>
                        (case py_iter results of
                           Inl e \<Rightarrow> (Inl e, tr1)
                         | Inr resourcedicts \<Rightarrow> (Inr (map Resource resourcedicts), tr1)))
                 else (Inr [], tr1))
          else (Inr [], log_debug ''%s'' [result] tr1))"

text \<open>\<^verbatim>\<open>Resource.delete_datastore\<close>.\<close>

definition delete_datastore :: "env \<Rightarrow> resource \<Rightarrow> trace \<Rightarrow> (exn + unit) \<times> trace" where
  "delete_datastore env r tr =
     (case py_getitem (data r) ''id'' of
        Inl e \<Rightarrow> (Inl e, tr)
      | Inr rid \<Rightarrow>
          (case action ''datastore_delete'' of
             Inl e \<Rightarrow> (Inl e, tr)
           | Inr act \<Rightarrow>
               (case hdx_read_from_hdx env ''datastore'' rid ''resource_id'' (Some act)
                       [(''force'', PBool True)] tr of
                  (Inl e, tr1) \<Rightarrow> (Inl e, tr1)
                | (Inr (success, result), tr1) \<Rightarrow>
                    if \<not> success then (Inr (), log_debug ''%s'' [result] tr1)
                    else (Inr (), tr1))))"

text \<open>\<^verbatim>\<open>Resource.download(path)\<close>.\<close>

definition download ::
  "env \<Rightarrow> resource \<Rightarrow> pyval \<Rightarrow> trace \<Rightarrow> (exn + pyval \<times> string) \<times> trace" where
  "download env r path tr =
     (case py_get (data r) ''url'' PNone of
        Inl e \<Rightarrow> (Inl e, tr)
      | Inr url \<Rightarrow>
          if \<not> truthy url then (Inl (HDXError ''No URL to download!'' [] None), tr)
          else
            (case perform (Download_file url path)
                    (ext_download_file env (log_debug ''Downloading %s'' [url] tr) url path)
                    (log_debug ''Downloading %s'' [url] tr) of
               (Inl e, tr1) \<Rightarrow> (Inl e, tr1)
             | (Inr p, tr1) \<Rightarrow> (Inr (url, p), tr1)))"

definition chunksize :: nat where
  "chunksize = 10000"

text \<open>The \<^verbatim>\<open>while offset < len(rows)\<close> loop of \<^verbatim>\<open>create_datastore\<close>.\<close>

function upload_loop ::
  "env \<Rightarrow> resource \<Rightarrow> pyval list \<Rightarrow> nat \<Rightarrow> trace \<Rightarrow> (exn + unit) \<times> trace" where
  "upload_loop env r rows offset tr =
     (if offset < length rows then
        (let rowset = take chunksize (drop offset rows) in
         case py_getitem (data r) ''id'' of
           Inl e \<Rightarrow> (Inl e, tr)
         | Inr rid \<Rightarrow>
             (case hdx_write_to_hdx env ''datastore_upsert''
                     (PDict [(''resource_id'', rid), (''force'', PBool True),
                             (''method'', PStr ''upsert''), (''records'', PList rowset)])
                     ''id'' tr of
                (Inl e, tr1) \<Rightarrow> (Inl e, tr1)
              | (Inr res, tr1) \<Rightarrow>
                  upload_loop env r rows (offset + chunksize)
                    (log_debug ''Uploading: %s'' [PInt (int (offset + chunksize))] tr1)))
      else (Inr (), tr))"
  by pat_completeness auto
termination
  by (relation "measure (\<lambda>(env, r, rows, offset, tr). length rows - offset)")
     (auto simp: chunksize_def)

declare upload_loop.simps [simp del]

text \<open>
  The \<^verbatim>\<open>finally\<close> clause of \<^verbatim>\<open>create_datastore\<close> when \<^verbatim>\<open>open\<close> returned a file:
  \<^verbatim>\<open>f.close()\<close>, then \<^verbatim>\<open>os.unlink(path)\<close>. \<open>pending\<close> is how the \<^verbatim>\<open>try\<close> statement ends
  if the clause raises nothing: normally, or with the \<^verbatim>\<open>HDXError\<close> of the \<^verbatim>\<open>except\<close> clause.
  An exception raised by \<^verbatim>\<open>close\<close> or \<^verbatim>\<open>unlink\<close> takes its place, and when \<^verbatim>\<open>close\<close> raises
  \<^verbatim>\<open>unlink\<close> is not reached.
\<close>

definition finally_cleanup ::
  "env \<Rightarrow> string \<Rightarrow> exn + unit \<Rightarrow> trace \<Rightarrow> (exn + unit) \<times> trace" where
  "finally_cleanup env path pending tr =
     (case perform (Close_file path) (ext_close env tr path) tr of
        (Inl e, tr1) \<Rightarrow> (Inl e, tr1)
      | (Inr u, tr1) \<Rightarrow>
          (case perform (Unlink path) (ext_unlink env tr1 path) tr1 of
             (Inl e, tr2) \<Rightarrow> (Inl e, tr2)
           | (Inr u', tr2) \<Rightarrow> (pending, tr2)))"

text \<open>\<^verbatim>\<open>Resource.create_datastore(schema, primary_key)\<close>. When \<^verbatim>\<open>open\<close> raises, \<open>f\<close> is
  \<open>None\<close> and the \<^verbatim>\<open>finally\<close> clause does nothing.\<close>

definition create_datastore ::
  "env \<Rightarrow> resource \<Rightarrow> pyval \<Rightarrow> pyval \<Rightarrow> trace \<Rightarrow> (exn + unit) \<times> trace" where
  "create_datastore env r schema primary_key tr =
     (case download env r PNone tr of
        (Inl e, tr1) \<Rightarrow> (Inl e, tr1)
      | (Inr (url, path), tr1) \<Rightarrow>
          (case py_getitem (data r) ''id'' of
             Inl e \<Rightarrow> (Inl e, tr1)
           | Inr rid \<Rightarrow>
               (case hdx_write_to_hdx env ''datastore_create''
                       (PDict [(''resource_id'', rid), (''force'', PBool True),
                               (''fields'', schema), (''primary_key'', primary_key)])
                       ''id'' tr1 of
                  (Inl e, tr2) \<Rightarrow> (Inl e, tr2)
                | (Inr res, tr2) \<Rightarrow>
                    (case perform (Open_file path) (ext_open env tr2 path) tr2 of
                       (Inl e, tr3) \<Rightarrow>
                         (Inl (HDXError ''Upload to datastore of %s failed!'' [url] (Some e)),
                          tr3)
                     | (Inr f, tr3) \<Rightarrow>
                         (case
                            (case perform (Csv_read path) (ext_csv_rows env tr3 path) tr3 of
                               (Inl e, tr4) \<Rightarrow> (Inl e, tr4)
                             | (Inr rows, tr4) \<Rightarrow>
                                 upload_loop env r rows 0
                                   (log_debug ''Uploading data from %s to datastore'' [url] tr4))
                          of
                            (Inl e, tr5) \<Rightarrow>
                              finally_cleanup env path
                                (Inl (HDXError ''Upload to datastore of %s failed!'' [url]
                                        (Some e)))
                                tr5
                          | (Inr u, tr5) \<Rightarrow> finally_cleanup env path (Inr ()) tr5)))))"

text \<open>\<^verbatim>\<open>Resource.create_datastore_from_dict_schema(data)\<close>.\<close>

definition create_datastore_from_dict_schema ::
  "env \<Rightarrow> resource \<Rightarrow> pyval \<Rightarrow> trace \<Rightarrow> (exn + unit) \<times> trace" where
  "create_datastore_from_dict_schema env r d tr =
     (case py_getitem d ''schema'' of
        Inl e \<Rightarrow> (Inl e, tr)
      | Inr schema \<Rightarrow>
          (case py_get d ''primary_key'' PNone of
             Inl e \<Rightarrow> (Inl e, tr)
           | Inr primary_key \<Rightarrow> create_datastore env r schema primary_key tr))"

definition create_datastore_from_yaml_schema ::
  "env \<Rightarrow> resource \<Rightarrow> string \<Rightarrow> trace \<Rightarrow> (exn + unit) \<times> trace" where
  "create_datastore_from_yaml_schema env r path tr =
     (case perform (Load_yaml path) (ext_load_yaml env tr path) tr of
        (Inl e, tr1) \<Rightarrow> (Inl e, tr1)
      | (Inr d, tr1) \<Rightarrow> create_datastore_from_dict_schema env r d tr1)"

definition create_datastore_for_topline ::
  "env \<Rightarrow> resource \<Rightarrow> trace \<Rightarrow> (exn + unit) \<times> trace" where
  "create_datastore_for_topline env r tr =
     (let path = ext_script_dir_plus_file env ''../hdx_datasource_topline.yml'' in
      case perform (Load_yaml path) (ext_load_yaml env tr path) tr of
        (Inl e, tr1) \<Rightarrow> (Inl e, tr1)
      | (Inr d, tr1) \<Rightarrow> create_datastore_from_dict_schema env r d tr1)"

definition create_datastore_from_json_schema ::
  "env \<Rightarrow> resource \<Rightarrow> string \<Rightarrow> trace \<Rightarrow> (exn + unit) \<times> trace" where
  "create_datastore_from_json_schema env r path tr =
     (case perform (Load_json path) (ext_load_json env tr path) tr of
        (Inl e, tr1) \<Rightarrow> (Inl e, tr1)
      | (Inr d, tr1) \<Rightarrow> create_datastore_from_dict_schema env r d tr1)"

definition update_datastore ::
  "env \<Rightarrow> resource \<Rightarrow> pyval \<Rightarrow> pyval \<Rightarrow> trace \<Rightarrow> (exn + unit) \<times> trace" where
  "update_datastore env r schema primary_key tr =
     (case delete_datastore env r tr of
        (Inl e, tr1) \<Rightarrow> (Inl e, tr1)
      | (Inr u, tr1) \<Rightarrow> create_datastore env r schema primary_key tr1)"

definition update_datastore_from_yaml_schema ::
  "env \<Rightarrow> resource \<Rightarrow> string \<Rightarrow> trace \<Rightarrow> (exn + unit) \<times> trace" where
  "update_datastore_from_yaml_schema env r path tr =
     (case delete_datastore env r tr of
        (Inl e, tr1) \<Rightarrow> (Inl e, tr1)
      | (Inr u, tr1) \<Rightarrow> create_datastore_from_yaml_schema env r path tr1)"

definition update_datastore_for_topline ::
  "env \<Rightarrow> resource \<Rightarrow> trace \<Rightarrow> (exn + unit) \<times> trace" where
  "update_datastore_for_topline env r tr =
     (case delete_datastore env r tr of
        (Inl e, tr1) \<Rightarrow> (Inl e, tr1)
      | (Inr u, tr1) \<Rightarrow> create_datastore_for_topline env r tr1)"

definition update_datastore_from_json_schema ::
  "env \<Rightarrow> resource \<Rightarrow> string \<Rightarrow> trace \<Rightarrow> (exn + unit) \<times> trace" where
  "update_datastore_from_json_schema env r path tr =
     (case delete_datastore env r tr of
        (Inl e, tr1) \<Rightarrow> (Inl e, tr1)
      | (Inr u, tr1) \<Rightarrow> create_datastore_from_json_schema env r path tr1)"

section \<open>Vocabulary of the properties\<close>

text \<open>The \<^verbatim>\<open>datastore_upsert\<close> call that carries one batch of rows.\<close>

definition upsert_call :: "pyval \<Rightarrow> pyval list \<Rightarrow> event" where
  "upsert_call rid rowset =
     Write_to_hdx ''datastore_upsert''
       (PDict [(''resource_id'', rid), (''force'', PBool True),
               (''method'', PStr ''upsert''), (''records'', PList rowset)]) ''id''"

text \<open>
  The batches as the specification words them: the rows are cut into
  \<open>ceil(N / chunksize)\<close> batches, batch \<open>i\<close> holding rows \<open>i * chunksize\<close> up to
  \<open>(i + 1) * chunksize\<close>.
\<close>

definition batch :: "pyval list \<Rightarrow> nat \<Rightarrow> pyval list" where
  "batch rows i = take chunksize (drop (i * chunksize) rows)"

definition n_batches :: "pyval list \<Rightarrow> nat" where
  "n_batches rows = (length rows + chunksize - 1) div chunksize"

text \<open>The events of one successful turn of the upload loop.\<close>

definition batch_events :: "pyval \<Rightarrow> pyval list \<Rightarrow> nat \<Rightarrow> trace" where
  "batch_events rid rows i =
     [(upsert_call rid (batch rows i), Ok),
      (Log_debug ''Uploading: %s'' [PInt (int ((i + 1) * chunksize))], Ok)]"

fun is_upsert :: "event \<Rightarrow> bool" where
  "is_upsert (Write_to_hdx a d i) = (a = ''datastore_upsert'')"
| "is_upsert ev = False"

text \<open>The \<^verbatim>\<open>datastore_upsert\<close> calls of a trace, in the order they were issued.\<close>

definition upserts :: "trace \<Rightarrow> event list" where
  "upserts tr = filter is_upsert (map fst tr)"

fun is_log :: "event \<Rightarrow> bool" where
  "is_log (Log_debug template args) = True"
| "is_log ev = False"

text \<open>A trace of \<^verbatim>\<open>datastore_upsert\<close> calls and log lines only, none of which raised.\<close>

definition uploads_only :: "trace \<Rightarrow> bool" where
  "uploads_only evs =
     list_all (\<lambda>x. snd x = Ok \<and> (is_upsert (fst x) \<or> is_log (fst x))) evs"

text \<open>A trace in which no call raised.\<close>

definition clean :: "trace \<Rightarrow> bool" where
  "clean evs = list_all (\<lambda>x. snd x = Ok) evs"

subsection \<open>Concrete environments and records\<close>

text \<open>
  An outside world that gives every call of one kind the same answer, and in which
  closing and unlinking a file succeed.
\<close>

definition const_env ::
  "(exn + bool \<times> pyval) \<Rightarrow> (exn + pyval) \<Rightarrow> (exn + string) \<Rightarrow> (exn + unit) \<Rightarrow> (exn + pyval list)
     \<Rightarrow> (exn + pyval) \<Rightarrow> env" where
  "const_env rd wr dl op rows cfg =
     \<lparr>ext_read_from_hdx = (\<lambda>tr object_type val fieldname action kwargs. rd),
      ext_write_to_hdx = (\<lambda>tr action d id_field_name. wr),
      ext_download_file = (\<lambda>tr url path. dl),
      ext_open = (\<lambda>tr path. op),
      ext_csv_rows = (\<lambda>tr path. rows),
      ext_close = (\<lambda>tr path. Inr ()),
      ext_unlink = (\<lambda>tr path. Inr ()),
      ext_load_yaml = (\<lambda>tr path. cfg),
      ext_load_json = (\<lambda>tr path. cfg),
      ext_script_dir_plus_file = (\<lambda>file. ''/hdx/data/'' @ file)\<rparr>"

definition rec1 :: resource where
  "rec1 = \<lparr>data = PDict [(''id'', PStr ''r1''), (''url'', PStr ''http://x/y.csv'')]\<rparr>"

text \<open>An outside world in which the second \<^verbatim>\<open>datastore_upsert\<close> call is refused.\<close>

definition env_second_upsert_fails :: "pyval list \<Rightarrow> env" where
  "env_second_upsert_fails rows =
     (const_env (Inr (True, PNone)) (Inr PNone) (Inr ''/tmp/y.csv'') (Inr ()) (Inr rows)
        (Inr PNone))
     \<lparr>ext_write_to_hdx :=
        (\<lambda>tr action d id_field_name.
           if action = ''datastore_upsert'' \<and> length (upserts tr) = 1
           then Inl (ExternalError ''refused'') else Inr PNone)\<rparr>"

text \<open>
  An outside world in which the second \<^verbatim>\<open>datastore_upsert\<close> call is refused and the file
  cannot be unlinked.
\<close>

definition env_upsert_and_unlink_fail :: "pyval list \<Rightarrow> env" where
  "env_upsert_and_unlink_fail rows =
     (env_second_upsert_fails rows)
     \<lparr>ext_unlink := (\<lambda>tr path. Inl (ExternalError ''permission denied''))\<rparr>"

text \<open>An outside world in which the downloaded file cannot be opened.\<close>

definition env_open_fails :: env where
  "env_open_fails =
     const_env (Inr (True, PNone)) (Inr PNone) (Inr ''/tmp/y.csv'')
       (Inl (ExternalError ''permission denied'')) (Inr [PDict []]) (Inr PNone)"

text \<open>A trace of log lines only.\<close>

definition logs_only :: "trace \<Rightarrow> bool" where
  "logs_only evs = list_all (\<lambda>x. is_log (fst x) \<and> snd x = Ok) evs"

text \<open>An outside world whose search answers two rows and reports a total of five.\<close>

definition env_two_of_five :: env where
  "env_two_of_five =
     const_env
       (Inr (True, PDict [(''count'', PInt 5),
                          (''results'', PList [PDict [(''id'', PStr ''a'')],
                                               PDict [(''id'', PStr ''b'')]])]))
       (Inr PNone) (Inr ''/tmp/y.csv'') (Inr ()) (Inr []) (Inr PNone)"

definition rec_no_url :: resource where
  "rec_no_url = \<lparr>data = PDict [(''id'', PStr ''r1''), (''url'', PStr [])]\<rparr>"

definition env_all_ok :: env where
  "env_all_ok =
     const_env (Inr (True, PDict [(''id'', PStr ''r1'')])) (Inr PNone) (Inr ''/tmp/y.csv'')
       (Inr ()) (Inr [PDict []]) (Inr PNone)"

text \<open>An outside world whose search reports no count with a row in the results.\<close>

definition env_no_count :: env where
  "env_no_count =
     const_env
       (Inr (True, PDict [(''results'', PList [PDict [(''id'', PStr ''a'')]])]))
       (Inr PNone) (Inr ''/tmp/y.csv'') (Inr ()) (Inr []) (Inr PNone)"

text \<open>An outside world whose search reports a count and no results.\<close>

definition env_count_only :: env where
  "env_count_only =
     const_env (Inr (True, PDict [(''count'', PInt 3)]))
       (Inr PNone) (Inr ''/tmp/y.csv'') (Inr ()) (Inr []) (Inr PNone)"

text \<open>An outside world whose reads report a failure with a message.\<close>

definition env_not_found :: env where
  "env_not_found =
     const_env (Inr (False, PStr ''id=r1: not found!'')) (Inr PNone) (Inr ''/tmp/y.csv'')
       (Inr ()) (Inr []) (Inr PNone)"

definition rec_no_id :: resource where
  "rec_no_id = \<lparr>data = PDict [(''name'', PStr ''Resource1'')]\<rparr>"

definition rec_empty_id :: resource where
  "rec_empty_id = \<lparr>data = PDict [(''id'', PStr [])]\<rparr>"

text \<open>
  One operation followed by another, as the claim words it: the second runs, from the
  trace the first left, when the first returned; an exception of the first ends both.
\<close>

definition followed_by ::
  "(trace \<Rightarrow> (exn + 'a) \<times> trace) \<Rightarrow> (trace \<Rightarrow> (exn + 'b) \<times> trace) \<Rightarrow> trace
     \<Rightarrow> (exn + 'b) \<times> trace" where
  "followed_by f g tr = (case f tr of (Inl e, tr1) \<Rightarrow> (Inl e, tr1) | (Inr x, tr1) \<Rightarrow> g tr1)"

subsection \<open>Operations and how they end\<close>

fun is_cleanup :: "event \<Rightarrow> bool" where
  "is_cleanup (Close_file path) = True"
| "is_cleanup (Unlink path) = True"
| "is_cleanup ev = False"

text \<open>
  A trace in which the first call that raised, if any, is followed by nothing but calls
  that close or unlink a file.
\<close>

fun fail_stop :: "trace \<Rightarrow> bool" where
  "fail_stop [] = True"
| "fail_stop ((ev, Ok) # rest) = fail_stop rest"
| "fail_stop ((ev, Raised e) # rest) = list_all (\<lambda>x. is_cleanup (fst x)) rest"


definition raised :: "(exn + 'a) \<times> trace \<Rightarrow> exn option \<times> trace" where
  "raised out = (case out of (Inl e, tr) \<Rightarrow> (Some e, tr) | (Inr x, tr) \<Rightarrow> (None, tr))"


text \<open>
  An operation run from trace \<open>tr\<close> ended well: it only added to the trace, what it added
  stops at the first call that raised, and if a call raised the operation raised.
\<close>

definition ends_well :: "(exn + 'a) \<times> trace \<Rightarrow> trace \<Rightarrow> bool" where
  "ends_well out tr =
     (\<exists>new. snd out = tr @ new \<and> fail_stop new \<and> (clean new \<or> isl (fst out)))"






section \<open>The upload loop\<close>

lemma chunksize_pos: "0 < chunksize"
  by (simp add: chunksize_def)

lemma n_batches_less: "i < n_batches rows \<longleftrightarrow> i * chunksize < length rows"
proof -
  have "i < n_batches rows \<longleftrightarrow> Suc i \<le> (length rows + chunksize - 1) div chunksize"
    by (auto simp: n_batches_def)
  also have "\<dots> \<longleftrightarrow> Suc i * chunksize \<le> length rows + chunksize - 1"
    using chunksize_pos by (simp only: less_eq_div_iff_mult_less_eq)
  also have "\<dots> \<longleftrightarrow> i * chunksize < length rows"
    using chunksize_pos by auto
  finally show ?thesis .
qed

lemma upload_loop_all_ok:
  assumes wr: "\<And>tr a d i. \<exists>v. ext_write_to_hdx env tr a d i = Inr v"
    and rid: "py_getitem (data r) ''id'' = Inr rid"
  shows "upload_loop env r rows (j * chunksize) tr =
           (Inr (), tr @ concat (map (batch_events rid rows) [j..<n_batches rows]))"
proof (induction "n_batches rows - j" arbitrary: j tr)
  case 0
  then have "\<not> j * chunksize < length rows"
    using n_batches_less[of j rows] by simp
  moreover have "[j..<n_batches rows] = []" using 0 by simp
  ultimately show ?case by (subst upload_loop.simps) (simp only: if_False append_Nil2 list.map concat.simps)
next
  case (Suc k)
  then have lt: "j < n_batches rows" by simp
  then have lt': "j * chunksize < length rows" using n_batches_less by simp
  have k: "k = n_batches rows - Suc j" using Suc.hyps(2) by simp
  obtain v where v: "ext_write_to_hdx env tr ''datastore_upsert''
       (PDict [(''resource_id'', rid), (''force'', PBool True),
               (''method'', PStr ''upsert''), (''records'', PList (take chunksize (drop (j * chunksize) rows)))]) ''id'' = Inr v"
    using wr by blast
  have up: "[j..<n_batches rows] = j # [Suc j..<n_batches rows]"
    using lt by (simp add: upt_conv_Cons)
  have step: "upload_loop env r rows (Suc j * chunksize) tr' =
      (Inr (), tr' @ concat (map (batch_events rid rows) [Suc j..<n_batches rows]))" for tr'
    using Suc.hyps(1)[OF k] .
  show ?case
    using lt' rid v step
    by (subst upload_loop.simps)
       (simp add: hdx_write_to_hdx_def perform_def log_debug_def up batch_events_def
          upsert_call_def batch_def add.commute)
qed

lemma clean_simps [simp]:
  "clean []" "clean ((ev, out) # evs) = (out = Ok \<and> clean evs)"
  "clean (xs @ ys) = (clean xs \<and> clean ys)"
  by (auto simp: clean_def)

lemma uploads_only_simps [simp]:
  "uploads_only []"
  "uploads_only ((ev, out) # evs) =
     (out = Ok \<and> (is_upsert ev \<or> is_log ev) \<and> uploads_only evs)"
  "uploads_only (xs @ ys) = (uploads_only xs \<and> uploads_only ys)"
  by (auto simp: uploads_only_def)

lemma uploads_only_clean: "uploads_only evs \<Longrightarrow> clean evs"
  by (auto simp: uploads_only_def clean_def list_all_iff)

lemma upload_loop_shape:
  "\<exists>evs. snd (upload_loop env r rows offset tr) = tr @ evs \<and>
     (case fst (upload_loop env r rows offset tr) of
        Inr u \<Rightarrow> uploads_only evs
      | Inl e \<Rightarrow>
          (py_getitem (data r) ''id'' = Inl e \<and> evs = []) \<or>
          (\<exists>body d. evs = body @ [(Write_to_hdx ''datastore_upsert'' d ''id'', Raised e)] \<and>
             uploads_only body))"
proof (induction env r rows offset tr rule: upload_loop.induct)
  case (1 env r rows offset tr)
  show ?case
  proof (cases "offset < length rows")
    case False
    then show ?thesis by (subst (1 2) upload_loop.simps) simp
  next
    case True
    note lt = this
    show ?thesis
    proof (cases "py_getitem (data r) ''id''")
      case (Inl e)
      with lt show ?thesis by (subst (1 2) upload_loop.simps) simp
    next
      case (Inr rid)
      let ?d = "PDict [(''resource_id'', rid), (''force'', PBool True),
                       (''method'', PStr ''upsert''),
                       (''records'', PList (take chunksize (drop offset rows)))]"
      show ?thesis
      proof (cases "ext_write_to_hdx env tr ''datastore_upsert'' ?d ''id''")
        case (Inl e)
        with lt Inr show ?thesis
          by (subst (1 2) upload_loop.simps)
             (simp add: hdx_write_to_hdx_def perform_def)
      next
        case wr: (Inr v)
        let ?tr1 = "tr @ [(Write_to_hdx ''datastore_upsert'' ?d ''id'', Ok)]"
        let ?tr2 = "log_debug ''Uploading: %s'' [PInt (int (offset + chunksize))] ?tr1"
        have w: "hdx_write_to_hdx env ''datastore_upsert'' ?d ''id'' tr = (Inr v, ?tr1)"
          using wr by (simp add: hdx_write_to_hdx_def perform_def)
        have eq: "upload_loop env r rows offset tr =
                  upload_loop env r rows (offset + chunksize) ?tr2"
          using lt Inr w by (subst upload_loop.simps) simp
        from "1.IH"[OF lt refl Inr w[symmetric] refl]
        obtain evs where evs: "snd (upload_loop env r rows (offset + chunksize) ?tr2) = ?tr2 @ evs"
          and sh: "(case fst (upload_loop env r rows (offset + chunksize) ?tr2) of
                      Inr u \<Rightarrow> uploads_only evs
                    | Inl e \<Rightarrow> (py_getitem (data r) ''id'' = Inl e \<and> evs = []) \<or>
                        (\<exists>body d. evs = body @ [(Write_to_hdx ''datastore_upsert'' d ''id'', Raised e)] \<and>
                           uploads_only body))"
          by blast
        let ?new = "[(Write_to_hdx ''datastore_upsert'' ?d ''id'', Ok),
                     (Log_debug ''Uploading: %s'' [PInt (int (offset + chunksize))], Ok)] @ evs"
        have "snd (upload_loop env r rows offset tr) = tr @ ?new"
          using evs by (simp add: eq log_debug_def)
        moreover have "(case fst (upload_loop env r rows offset tr) of
                      Inr u \<Rightarrow> uploads_only ?new
                    | Inl e \<Rightarrow> (py_getitem (data r) ''id'' = Inl e \<and> ?new = []) \<or>
                        (\<exists>body d. ?new = body @ [(Write_to_hdx ''datastore_upsert'' d ''id'', Raised e)] \<and>
                           uploads_only body))"
          using sh Inr unfolding eq
          by (cases "fst (upload_loop env r rows (offset + chunksize) ?tr2)") auto
        ultimately show ?thesis by blast
      qed
    qed
  qed
qed

lemma concat_batches_take:
  "concat (map (batch rows) [0..<n]) = take (n * chunksize) rows"
proof (induction n)
  case 0
  show ?case by simp
next
  case (Suc n)
  have "take (n * chunksize) rows @ take chunksize (drop (n * chunksize) rows) =
        take (n * chunksize + chunksize) rows"
    by (simp add: take_add)
  with Suc show ?case by (simp add: batch_def add.commute)
qed

lemma n_batches_covers: "length rows \<le> n_batches rows * chunksize"
  using n_batches_less[of "n_batches rows" rows] by simp

lemma concat_batches: "concat (map (batch rows) [0..<n_batches rows]) = rows"
  using n_batches_covers[of rows] by (simp add: concat_batches_take)

lemma length_batch:
  assumes "i < n_batches rows"
  shows "length (batch rows i) =
           (if Suc i < n_batches rows then chunksize else length rows - i * chunksize)"
proof (cases "Suc i < n_batches rows")
  case True
  then have "Suc i * chunksize < length rows" using n_batches_less by blast
  then show ?thesis using True by (simp add: batch_def)
next
  case False
  then have "\<not> Suc i * chunksize < length rows" using n_batches_less by blast
  then show ?thesis using False by (simp add: batch_def)
qed

lemma upserts_simps [simp]:
  "upserts [] = []"
  "upserts ((ev, out) # xs) = (if is_upsert ev then ev # upserts xs else upserts xs)"
  "upserts (xs @ ys) = upserts xs @ upserts ys"
  by (simp_all add: upserts_def)

lemma upserts_batch_events:
  "upserts (concat (map (batch_events rid rows) js)) =
     map (\<lambda>i. upsert_call rid (batch rows i)) js"
  by (induction js) (simp_all add: batch_events_def upsert_call_def)

section \<open>Creating the datastore\<close>

lemma finally_cleanup_cases:
  assumes "finally_cleanup env path pending tr = (res, tr')"
  obtains
    (close_raised) e where "res = Inl e" "tr' = tr @ [(Close_file path, Raised e)]"
  | (unlink_raised) e where
      "res = Inl e" "tr' = tr @ [(Close_file path, Ok), (Unlink path, Raised e)]"
  | (cleaned) "res = pending" "tr' = tr @ [(Close_file path, Ok), (Unlink path, Ok)]"
proof (cases "ext_close env tr path")
  case (Inl e)
  with assms have "res = Inl e" "tr' = tr @ [(Close_file path, Raised e)]"
    by (auto simp: finally_cleanup_def perform_def)
  then show thesis by (rule close_raised)
next
  case cl: (Inr u)
  show thesis
  proof (cases "ext_unlink env (tr @ [(Close_file path, Ok)]) path")
    case (Inl e)
    with assms cl have "res = Inl e"
      "tr' = tr @ [(Close_file path, Ok), (Unlink path, Raised e)]"
      by (auto simp: finally_cleanup_def perform_def)
    then show thesis by (rule unlink_raised)
  next
    case (Inr u')
    with assms cl have "res = pending" "tr' = tr @ [(Close_file path, Ok), (Unlink path, Ok)]"
      by (auto simp: finally_cleanup_def perform_def)
    then show thesis by (rule cleaned)
  qed
qed

lemma upserts_finally_cleanup:
  "upserts (snd (finally_cleanup env path pending tr)) = upserts tr"
  by (auto simp: finally_cleanup_def perform_def split: sum.splits)

lemma finally_cleanup_returns:
  "fst (finally_cleanup env path (Inr ()) tr) = Inr () \<longleftrightarrow>
     clean (drop (length tr) (snd (finally_cleanup env path (Inr ()) tr)))"
  by (auto simp: finally_cleanup_def perform_def split: sum.splits)

lemma clean_batch_events: "clean (concat (map (batch_events rid rows) js))"
  by (induction js) (simp_all add: batch_events_def)

lemma create_datastore_all_ok:
  assumes d: "data r = PDict d" and rid: "map_of d ''id'' = Some rid"
    and url: "map_of d ''url'' = Some url" "truthy url"
    and dl: "\<And>h. ext_download_file env h url PNone = Inr path"
    and op: "\<And>h. ext_open env h path = Inr ()"
    and csv: "\<And>h. ext_csv_rows env h path = Inr rows"
    and wr: "\<And>h a p i. \<exists>v. ext_write_to_hdx env h a p i = Inr v"
  shows "create_datastore env r schema primary_key tr =
     finally_cleanup env path (Inr ())
       (tr @ [(Log_debug ''Downloading %s'' [url], Ok),
              (Download_file url PNone, Ok),
              (Write_to_hdx ''datastore_create''
                 (PDict [(''resource_id'', rid), (''force'', PBool True),
                         (''fields'', schema), (''primary_key'', primary_key)]) ''id'', Ok),
              (Open_file path, Ok),
              (Csv_read path, Ok),
              (Log_debug ''Uploading data from %s to datastore'' [url], Ok)]
           @ concat (map (batch_events rid rows) [0..<n_batches rows]))"
proof -
  have g: "py_getitem (data r) ''id'' = Inr rid" using d rid by simp
  have loop: "upload_loop env r rows 0 h =
           (Inr (), h @ concat (map (batch_events rid rows) [0..<n_batches rows]))" for h
    using upload_loop_all_ok[OF wr g, of rows 0 h] by simp
  obtain v where v: "ext_write_to_hdx env
       (tr @ [(Log_debug ''Downloading %s'' [url], Ok), (Download_file url PNone, Ok)])
       ''datastore_create''
       (PDict [(''resource_id'', rid), (''force'', PBool True),
               (''fields'', schema), (''primary_key'', primary_key)]) ''id'' = Inr v"
    using wr by blast
  show ?thesis
    using d rid url v
    by (simp add: create_datastore_def download_def perform_def log_debug_def
          hdx_write_to_hdx_def dl op csv loop)
qed

text \<open>
  C1. For a record that carries an \<open>id\<close> and a url, when the download succeeds, the file
  opens and parses into \<open>N\<close> rows and the remote accepts every write, the
  \<^verbatim>\<open>datastore_upsert\<close> calls that \<^verbatim>\<open>create_datastore\<close> issues are, in this order, one call
  per batch, each with \<open>force = True\<close>: there are \<open>ceil(N / 10000)\<close> batches, together they
  are the rows in file order, and every batch has 10000 rows but the last, which has the
  rest. The trace is a sequence: one call ends before the next is issued. Nothing is
  assumed of closing and unlinking the file; the call returns normally exactly when both
  return.
\<close>

theorem create_datastore_batches:
  assumes d: "data r = PDict d" and rid: "map_of d ''id'' = Some rid"
    and url: "map_of d ''url'' = Some url" "truthy url"
    and dl: "\<And>h. ext_download_file env h url PNone = Inr path"
    and op: "\<And>h. ext_open env h path = Inr ()"
    and csv: "\<And>h. ext_csv_rows env h path = Inr rows"
    and wr: "\<And>h a p i. \<exists>v. ext_write_to_hdx env h a p i = Inr v"
  shows "upserts (snd (create_datastore env r schema primary_key tr)) =
           upserts tr @ map (\<lambda>i. upsert_call rid (batch rows i)) [0..<n_batches rows] \<and>
         n_batches rows = (length rows + 9999) div 10000 \<and>
         concat (map (batch rows) [0..<n_batches rows]) = rows \<and>
         (\<forall>i<n_batches rows.
            length (batch rows i) =
              (if Suc i < n_batches rows then 10000 else length rows - i * 10000)) \<and>
         (fst (create_datastore env r schema primary_key tr) = Inr () \<longleftrightarrow>
            clean (drop (length tr) (snd (create_datastore env r schema primary_key tr))))"
proof -
  let ?body = "[(Log_debug ''Downloading %s'' [url], Ok),
              (Download_file url PNone, Ok),
              (Write_to_hdx ''datastore_create''
                 (PDict [(''resource_id'', rid), (''force'', PBool True),
                         (''fields'', schema), (''primary_key'', primary_key)]) ''id'', Ok),
              (Open_file path, Ok),
              (Csv_read path, Ok),
              (Log_debug ''Uploading data from %s to datastore'' [url], Ok)]
           @ concat (map (batch_events rid rows) [0..<n_batches rows])"
  have run: "create_datastore env r schema primary_key tr =
               finally_cleanup env path (Inr ()) (tr @ ?body)"
    using create_datastore_all_ok[OF assms, of schema primary_key tr] by simp
  have cb: "clean ?body" by (simp add: clean_batch_events)
  have "upserts (snd (create_datastore env r schema primary_key tr)) =
           upserts tr @ map (\<lambda>i. upsert_call rid (batch rows i)) [0..<n_batches rows]"
    unfolding run upserts_finally_cleanup by (simp add: upserts_batch_events)
  moreover have "n_batches rows = (length rows + 9999) div 10000"
    by (simp add: n_batches_def chunksize_def)
  moreover have "\<forall>i<n_batches rows.
            length (batch rows i) =
              (if Suc i < n_batches rows then 10000 else length rows - i * 10000)"
    using length_batch[of _ rows] by (simp add: chunksize_def)
  moreover have "fst (create_datastore env r schema primary_key tr) = Inr () \<longleftrightarrow>
            clean (drop (length tr) (snd (create_datastore env r schema primary_key tr)))"
  proof -
    obtain res tr' where fc: "finally_cleanup env path (Inr ()) (tr @ ?body) = (res, tr')"
      by (cases "finally_cleanup env path (Inr ()) (tr @ ?body)") blast
    from fc show ?thesis
      unfolding run
      by (cases rule: finally_cleanup_cases) (use cb fc in auto)
  qed
  ultimately show ?thesis
    using concat_batches[of rows] by simp
qed

theorem create_datastore_batches_witness:
  "upserts (snd (create_datastore
          (const_env (Inr (True, PNone)) (Inr PNone) (Inr ''/tmp/y.csv'') (Inr ())
             (Inr (replicate 10001 (PDict []))) (Inr PNone))
          rec1 (PList []) PNone [])) =
     [upsert_call (PStr ''r1'') (replicate 10000 (PDict [])),
      upsert_call (PStr ''r1'') [PDict []]] \<and>
   fst (create_datastore
          (const_env (Inr (True, PNone)) (Inr PNone) (Inr ''/tmp/y.csv'') (Inr ())
             (Inr (replicate 10001 (PDict []))) (Inr PNone))
          rec1 (PList []) PNone []) = Inr ()"
proof -
  let ?rows = "replicate 10001 (PDict [])"
  let ?env = "const_env (Inr (True, PNone)) (Inr PNone) (Inr ''/tmp/y.csv'') (Inr ())
                (Inr ?rows) (Inr PNone)"
  have nb: "n_batches ?rows = 2"
    by (simp add: n_batches_def chunksize_def)
  have up: "[0..<2] = [0, Suc 0]"
    by (simp add: numeral_2_eq_2)
  have b0: "batch ?rows 0 = replicate 10000 (PDict [])"
    by (simp add: batch_def chunksize_def)
  have "batch ?rows (Suc 0) = replicate 1 (PDict [])"
    by (simp add: batch_def chunksize_def)
  then have b1: "batch ?rows (Suc 0) = [PDict []]"
    by simp
  have ok: "fst (create_datastore ?env rec1 (PList []) PNone []) = Inr ()"
    by (simp add: create_datastore_def finally_cleanup_def download_def hdx_write_to_hdx_def
          perform_def log_debug_def const_env_def rec1_def upload_loop.simps chunksize_def)
  from create_datastore_batches[of rec1
      "[(''id'', PStr ''r1''), (''url'', PStr ''http://x/y.csv'')]"
      "PStr ''r1''" "PStr ''http://x/y.csv''" ?env "''/tmp/y.csv''" ?rows "PList []" PNone "[]"]
  have "upserts (snd (create_datastore ?env rec1 (PList []) PNone [])) =
     [upsert_call (PStr ''r1'') (replicate 10000 (PDict [])),
      upsert_call (PStr ''r1'') [PDict []]]"
    by (simp add: rec1_def const_env_def nb up b0 b1)
  with ok show ?thesis by simp
qed

lemma upload_loop_Inl:
  assumes "upload_loop env r rows offset tr = (Inl e, tr')"
    and "py_getitem (data r) ''id'' = Inr rid"
  shows "\<exists>body d. tr' = tr @ body @ [(Write_to_hdx ''datastore_upsert'' d ''id'', Raised e)] \<and>
           uploads_only body"
  using upload_loop_shape[of env r rows offset tr] assms by auto

lemma upload_loop_Inr:
  assumes "upload_loop env r rows offset tr = (Inr u, tr')"
  shows "\<exists>evs. tr' = tr @ evs \<and> uploads_only evs"
  using upload_loop_shape[of env r rows offset tr] assms by auto

lemma create_datastore_cases:
  assumes run: "create_datastore env r schema primary_key tr = (res, tr')"
  obtains
    (no_url) e where "res = Inl e" "tr' = tr"
  | (download_failed) url e where
      "res = Inl e"
      "tr' = tr @ [(Log_debug ''Downloading %s'' [url], Ok), (Download_file url PNone, Raised e)]"
  | (no_id) url e where
      "res = Inl e"
      "tr' = tr @ [(Log_debug ''Downloading %s'' [url], Ok), (Download_file url PNone, Ok)]"
  | (create_failed) url d e where
      "res = Inl e"
      "tr' = tr @ [(Log_debug ''Downloading %s'' [url], Ok), (Download_file url PNone, Ok),
                   (Write_to_hdx ''datastore_create'' d ''id'', Raised e)]"
  | (open_failed) url d path e where
      "res = Inl (HDXError ''Upload to datastore of %s failed!'' [url] (Some e))"
      "tr' = tr @ [(Log_debug ''Downloading %s'' [url], Ok), (Download_file url PNone, Ok),
                   (Write_to_hdx ''datastore_create'' d ''id'', Ok),
                   (Open_file path, Raised e)]"
  | (csv_failed) url d path e where
      "finally_cleanup env path
         (Inl (HDXError ''Upload to datastore of %s failed!'' [url] (Some e)))
         (tr @ [(Log_debug ''Downloading %s'' [url], Ok), (Download_file url PNone, Ok),
                (Write_to_hdx ''datastore_create'' d ''id'', Ok),
                (Open_file path, Ok), (Csv_read path, Raised e)]) = (res, tr')"
  | (upsert_failed) url d path body p e where
      "uploads_only body"
      "finally_cleanup env path
         (Inl (HDXError ''Upload to datastore of %s failed!'' [url] (Some e)))
         (tr @ [(Log_debug ''Downloading %s'' [url], Ok), (Download_file url PNone, Ok),
                (Write_to_hdx ''datastore_create'' d ''id'', Ok),
                (Open_file path, Ok), (Csv_read path, Ok),
                (Log_debug ''Uploading data from %s to datastore'' [url], Ok)]
             @ body
             @ [(Write_to_hdx ''datastore_upsert'' p ''id'', Raised e)]) = (res, tr')"
  | (uploaded) url d path body where
      "uploads_only body"
      "finally_cleanup env path (Inr ())
         (tr @ [(Log_debug ''Downloading %s'' [url], Ok), (Download_file url PNone, Ok),
                (Write_to_hdx ''datastore_create'' d ''id'', Ok),
                (Open_file path, Ok), (Csv_read path, Ok),
                (Log_debug ''Uploading data from %s to datastore'' [url], Ok)]
             @ body) = (res, tr')"
proof -
  note defs = create_datastore_def download_def hdx_write_to_hdx_def perform_def log_debug_def
  show thesis
  proof (cases "py_get (data r) ''url'' PNone")
    case (Inl e)
    with run have "res = Inl e" "tr' = tr" by (auto simp: defs)
    then show thesis by (rule no_url)
  next
    case u: (Inr url)
    show thesis
    proof (cases "truthy url")
      case False
      with run u have "res = Inl (HDXError ''No URL to download!'' [] None)" "tr' = tr"
        by (auto simp: defs)
      then show thesis by (rule no_url)
    next
      case t: True
      let ?t1 = "tr @ [(Log_debug ''Downloading %s'' [url], Ok)]"
      show thesis
      proof (cases "ext_download_file env ?t1 url PNone")
        case (Inl e)
        with run u t have "res = Inl e"
          "tr' = tr @ [(Log_debug ''Downloading %s'' [url], Ok),
                       (Download_file url PNone, Raised e)]"
          by (auto simp: defs)
        then show thesis by (rule download_failed)
      next
        case dl: (Inr path)
        let ?t2 = "tr @ [(Log_debug ''Downloading %s'' [url], Ok), (Download_file url PNone, Ok)]"
        have dn: "download env r PNone tr = (Inr (url, path), ?t2)"
          using u t dl by (simp add: defs)
        show thesis
        proof (cases "py_getitem (data r) ''id''")
          case (Inl e)
          with run dn have "res = Inl e" "tr' = ?t2"
            by (auto simp: create_datastore_def)
          then show thesis by (rule no_id)
        next
          case g: (Inr rid)
          let ?d = "PDict [(''resource_id'', rid), (''force'', PBool True),
                           (''fields'', schema), (''primary_key'', primary_key)]"
          show thesis
          proof (cases "ext_write_to_hdx env ?t2 ''datastore_create'' ?d ''id''")
            case (Inl e)
            with run dn g have "res = Inl e"
              "tr' = tr @ [(Log_debug ''Downloading %s'' [url], Ok), (Download_file url PNone, Ok),
                   (Write_to_hdx ''datastore_create'' ?d ''id'', Raised e)]"
              by (auto simp: create_datastore_def hdx_write_to_hdx_def perform_def)
            then show thesis by (rule create_failed)
          next
            case w: (Inr v)
            let ?t3 = "tr @ [(Log_debug ''Downloading %s'' [url], Ok),
                             (Download_file url PNone, Ok),
                             (Write_to_hdx ''datastore_create'' ?d ''id'', Ok)]"
            have wr: "hdx_write_to_hdx env ''datastore_create'' ?d ''id'' ?t2 = (Inr v, ?t3)"
              using w by (simp add: hdx_write_to_hdx_def perform_def)
            show thesis
            proof (cases "ext_open env ?t3 path")
              case (Inl e)
              with run dn g wr have
                "res = Inl (HDXError ''Upload to datastore of %s failed!'' [url] (Some e))"
                "tr' = tr @ [(Log_debug ''Downloading %s'' [url], Ok),
                   (Download_file url PNone, Ok),
                   (Write_to_hdx ''datastore_create'' ?d ''id'', Ok),
                   (Open_file path, Raised e)]"
                by (auto simp: create_datastore_def perform_def)
              then show thesis by (rule open_failed)
            next
              case op: (Inr f)
              let ?t4 = "?t3 @ [(Open_file path, Ok)]"
              show thesis
              proof (cases "ext_csv_rows env ?t4 path")
                case (Inl e)
                with run dn g wr op have
                  "finally_cleanup env path
                     (Inl (HDXError ''Upload to datastore of %s failed!'' [url] (Some e)))
                     (tr @ [(Log_debug ''Downloading %s'' [url], Ok),
                            (Download_file url PNone, Ok),
                            (Write_to_hdx ''datastore_create'' ?d ''id'', Ok),
                            (Open_file path, Ok), (Csv_read path, Raised e)]) = (res, tr')"
                  by (auto simp: create_datastore_def perform_def)
                then show thesis by (rule csv_failed)
              next
                case csv: (Inr rows)
                let ?t5 = "tr @ [(Log_debug ''Downloading %s'' [url], Ok),
                     (Download_file url PNone, Ok),
                     (Write_to_hdx ''datastore_create'' ?d ''id'', Ok),
                     (Open_file path, Ok), (Csv_read path, Ok),
                     (Log_debug ''Uploading data from %s to datastore'' [url], Ok)]"
                obtain lres ltr where loop: "upload_loop env r rows 0 ?t5 = (lres, ltr)"
                  by (cases "upload_loop env r rows 0 ?t5") blast
                show thesis
                proof (cases lres)
                  case (Inl e)
                  from upload_loop_Inl[OF loop[unfolded Inl] g]
                  obtain body p where ltr:
                    "ltr = ?t5 @ body @ [(Write_to_hdx ''datastore_upsert'' p ''id'', Raised e)]"
                    and cl: "uploads_only body"
                    by blast
                  from run dn g wr op csv loop Inl have
                    "finally_cleanup env path
                       (Inl (HDXError ''Upload to datastore of %s failed!'' [url] (Some e)))
                       ltr = (res, tr')"
                    by (auto simp: create_datastore_def perform_def log_debug_def)
                  with ltr show thesis by (intro upsert_failed[OF cl]) simp
                next
                  case (Inr x)
                  from upload_loop_Inr[OF loop[unfolded Inr]]
                  obtain body where ltr: "ltr = ?t5 @ body" and cl: "uploads_only body"
                    by blast
                  from run dn g wr op csv loop Inr have
                    "finally_cleanup env path (Inr ()) ltr = (res, tr')"
                    by (auto simp: create_datastore_def perform_def log_debug_def)
                  with ltr show thesis by (intro uploaded[OF cl]) simp
                qed
              qed
            qed
          qed
        qed
      qed
    qed
  qed
qed

lemma clean_no_raise: "clean body \<Longrightarrow> (ev, Raised e) \<notin> set body"
  by (auto simp: clean_def list_all_iff)

lemma finally_cleanup_post:
  assumes "finally_cleanup env path pending t = (res, tr')"
  obtains post where "tr' = t @ post"
    and "(\<exists>ec. post = [(Close_file path, Raised ec)]) \<or>
         (\<exists>out. post = [(Close_file path, Ok), (Unlink path, out)])"
    and "clean post \<Longrightarrow> post = [(Close_file path, Ok), (Unlink path, Ok)] \<and> res = pending"
    and "\<not> clean post \<Longrightarrow> \<exists>ec. res = Inl ec"
  using assms
proof (cases rule: finally_cleanup_cases)
  case (close_raised e)
  then show ?thesis using that[of "[(Close_file path, Raised e)]"] by simp
next
  case (unlink_raised e)
  then show ?thesis
    using that[of "[(Close_file path, Ok), (Unlink path, Raised e)]"] by simp
next
  case cleaned
  then show ?thesis
    using that[of "[(Close_file path, Ok), (Unlink path, Ok)]"] by simp
qed

lemma run_second_upsert_fails:
  "create_datastore (env_second_upsert_fails (replicate 20001 (PDict []))) rec1 (PList []) PNone [] =
     (Inl (HDXError ''Upload to datastore of %s failed!'' [PStr ''http://x/y.csv'']
             (Some (ExternalError ''refused''))),
      [(Log_debug ''Downloading %s'' [PStr ''http://x/y.csv''], Ok),
       (Download_file (PStr ''http://x/y.csv'') PNone, Ok),
       (Write_to_hdx ''datastore_create''
          (PDict [(''resource_id'', PStr ''r1''), (''force'', PBool True),
                  (''fields'', PList []), (''primary_key'', PNone)]) ''id'', Ok),
       (Open_file ''/tmp/y.csv'', Ok),
       (Csv_read ''/tmp/y.csv'', Ok),
       (Log_debug ''Uploading data from %s to datastore'' [PStr ''http://x/y.csv''], Ok),
       (upsert_call (PStr ''r1'') (replicate 10000 (PDict [])), Ok),
       (Log_debug ''Uploading: %s'' [PInt 10000], Ok),
       (upsert_call (PStr ''r1'') (replicate 10000 (PDict [])), Raised (ExternalError ''refused'')),
       (Close_file ''/tmp/y.csv'', Ok),
       (Unlink ''/tmp/y.csv'', Ok)])"
  by (simp add: create_datastore_def finally_cleanup_def download_def hdx_write_to_hdx_def
        perform_def log_debug_def env_second_upsert_fails_def const_env_def rec1_def
        upload_loop.simps chunksize_def upsert_call_def)

lemma create_datastore_unlink_replaces_error_run:
  "create_datastore (env_upsert_and_unlink_fail (replicate 20001 (PDict []))) rec1 (PList [])
     PNone [] =
     (Inl (ExternalError ''permission denied''),
      [(Log_debug ''Downloading %s'' [PStr ''http://x/y.csv''], Ok),
       (Download_file (PStr ''http://x/y.csv'') PNone, Ok),
       (Write_to_hdx ''datastore_create''
          (PDict [(''resource_id'', PStr ''r1''), (''force'', PBool True),
                  (''fields'', PList []), (''primary_key'', PNone)]) ''id'', Ok),
       (Open_file ''/tmp/y.csv'', Ok),
       (Csv_read ''/tmp/y.csv'', Ok),
       (Log_debug ''Uploading data from %s to datastore'' [PStr ''http://x/y.csv''], Ok),
       (upsert_call (PStr ''r1'') (replicate 10000 (PDict [])), Ok),
       (Log_debug ''Uploading: %s'' [PInt 10000], Ok),
       (upsert_call (PStr ''r1'') (replicate 10000 (PDict [])), Raised (ExternalError ''refused'')),
       (Close_file ''/tmp/y.csv'', Ok),
       (Unlink ''/tmp/y.csv'', Raised (ExternalError ''permission denied''))])"
  by (simp add: create_datastore_def finally_cleanup_def download_def hdx_write_to_hdx_def
        perform_def log_debug_def env_upsert_and_unlink_fail_def env_second_upsert_fails_def
        const_env_def rec1_def upload_loop.simps chunksize_def upsert_call_def)

text \<open>
  C2, as the claim states it, fails: when the second \<^verbatim>\<open>datastore_upsert\<close> call raises and
  \<^verbatim>\<open>os.unlink\<close> then raises in the \<^verbatim>\<open>finally\<close> clause, the caller gets the exception of
  \<^verbatim>\<open>os.unlink\<close> and not the \<^verbatim>\<open>HDXError\<close>.
\<close>

theorem create_datastore_unlink_replaces_error_counterexample:
  "create_datastore (env_upsert_and_unlink_fail (replicate 20001 (PDict []))) rec1 (PList [])
     PNone [] =
     (Inl (ExternalError ''permission denied''),
      [(Log_debug ''Downloading %s'' [PStr ''http://x/y.csv''], Ok),
       (Download_file (PStr ''http://x/y.csv'') PNone, Ok),
       (Write_to_hdx ''datastore_create''
          (PDict [(''resource_id'', PStr ''r1''), (''force'', PBool True),
                  (''fields'', PList []), (''primary_key'', PNone)]) ''id'', Ok),
       (Open_file ''/tmp/y.csv'', Ok),
       (Csv_read ''/tmp/y.csv'', Ok),
       (Log_debug ''Uploading data from %s to datastore'' [PStr ''http://x/y.csv''], Ok),
       (upsert_call (PStr ''r1'') (replicate 10000 (PDict [])), Ok),
       (Log_debug ''Uploading: %s'' [PInt 10000], Ok),
       (upsert_call (PStr ''r1'') (replicate 10000 (PDict [])), Raised (ExternalError ''refused'')),
       (Close_file ''/tmp/y.csv'', Ok),
       (Unlink ''/tmp/y.csv'', Raised (ExternalError ''permission denied''))])"
  by (rule create_datastore_unlink_replaces_error_run)

text \<open>
  C2, amended. Whenever a batch's \<^verbatim>\<open>datastore_upsert\<close> call raises during
  \<^verbatim>\<open>create_datastore\<close>, every call before it succeeded and nothing follows it but closing
  the file and, when that returns, unlinking it: no later batch is issued and the failed
  one is not tried again. When closing and unlinking return, the caller gets one
  \<^verbatim>\<open>HDXError\<close>, ``Upload to datastore of ... failed!'', caused by that exception.
\<close>

theorem create_datastore_upsert_failure:
  assumes run: "create_datastore env r schema primary_key tr = (res, tr')"
    and failed: "(Write_to_hdx ''datastore_upsert'' p i, Raised e) \<in> set (drop (length tr) tr')"
  shows "\<exists>url path pre post.
           tr' = tr @ pre @ [(Write_to_hdx ''datastore_upsert'' p i, Raised e)] @ post \<and>
           clean pre \<and>
           ((\<exists>ec. post = [(Close_file path, Raised ec)]) \<or>
            (\<exists>out. post = [(Close_file path, Ok), (Unlink path, out)])) \<and>
           (clean post \<longrightarrow>
              res = Inl (HDXError ''Upload to datastore of %s failed!'' [url] (Some e)))"
  using run
proof (cases rule: create_datastore_cases)
  case (csv_failed url d path e')
  from csv_failed obtain post where "tr' = (tr @ [(Log_debug ''Downloading %s'' [url], Ok),
                (Download_file url PNone, Ok),
                (Write_to_hdx ''datastore_create'' d ''id'', Ok),
                (Open_file path, Ok), (Csv_read path, Raised e')]) @ post"
    and "(\<exists>ec. post = [(Close_file path, Raised ec)]) \<or>
         (\<exists>out. post = [(Close_file path, Ok), (Unlink path, out)])"
    by (rule finally_cleanup_post)
  with failed show ?thesis by auto
next
  case (upsert_failed url d path body p' e')
  note cl = uploads_only_clean[OF upsert_failed(1)]
  let ?pre = "[(Log_debug ''Downloading %s'' [url], Ok), (Download_file url PNone, Ok),
               (Write_to_hdx ''datastore_create'' d ''id'', Ok),
               (Open_file path, Ok), (Csv_read path, Ok),
               (Log_debug ''Uploading data from %s to datastore'' [url], Ok)] @ body"
  from upsert_failed(2) obtain post where
    tr': "tr' = (tr @ ?pre @ [(Write_to_hdx ''datastore_upsert'' p' ''id'', Raised e')]) @ post"
    and shape: "(\<exists>ec. post = [(Close_file path, Raised ec)]) \<or>
         (\<exists>out. post = [(Close_file path, Ok), (Unlink path, out)])"
    and ok: "clean post \<Longrightarrow> post = [(Close_file path, Ok), (Unlink path, Ok)] \<and>
         res = Inl (HDXError ''Upload to datastore of %s failed!'' [url] (Some e'))"
    by (rule finally_cleanup_post) simp
  from failed tr' shape clean_no_raise[OF cl]
  have same: "p' = p" "i = ''id''" "e' = e"
    by auto
  have "tr' = tr @ ?pre @ [(Write_to_hdx ''datastore_upsert'' p i, Raised e)] @ post"
    using tr' same by simp
  moreover have "clean ?pre" using cl by simp
  moreover have "clean post \<longrightarrow>
      res = Inl (HDXError ''Upload to datastore of %s failed!'' [url] (Some e))"
    using ok same by simp
  ultimately show ?thesis using shape by blast
next
  case (uploaded url d path body)
  note cl = uploads_only_clean[OF uploaded(1)]
  from uploaded(2) obtain post where
    "tr' = (tr @ [(Log_debug ''Downloading %s'' [url], Ok), (Download_file url PNone, Ok),
                (Write_to_hdx ''datastore_create'' d ''id'', Ok),
                (Open_file path, Ok), (Csv_read path, Ok),
                (Log_debug ''Uploading data from %s to datastore'' [url], Ok)]
             @ body) @ post"
    and "(\<exists>ec. post = [(Close_file path, Raised ec)]) \<or>
         (\<exists>out. post = [(Close_file path, Ok), (Unlink path, out)])"
    by (rule finally_cleanup_post)
  with failed clean_no_raise[OF cl] show ?thesis by auto
qed (use failed in auto)

theorem create_datastore_upsert_failure_witness:
  "(\<exists>pre post.
      snd (create_datastore (env_second_upsert_fails (replicate 20001 (PDict []))) rec1
             (PList []) PNone []) =
        [] @ pre @ [(upsert_call (PStr ''r1'') (replicate 10000 (PDict [])),
                     Raised (ExternalError ''refused''))] @ post \<and>
      clean pre \<and> clean post) \<and>
   fst (create_datastore (env_second_upsert_fails (replicate 20001 (PDict []))) rec1
          (PList []) PNone []) =
     Inl (HDXError ''Upload to datastore of %s failed!'' [PStr ''http://x/y.csv'']
            (Some (ExternalError ''refused''))) \<and>
   n_batches (replicate 20001 (PDict [])) = 3 \<and>
   length (upserts (snd (create_datastore (env_second_upsert_fails (replicate 20001 (PDict [])))
                           rec1 (PList []) PNone []))) = 2"
proof -
  let ?run = "create_datastore (env_second_upsert_fails (replicate 20001 (PDict []))) rec1
                (PList []) PNone []"
  have nb: "n_batches (replicate 20001 (PDict [])) = 3"
    by (simp add: n_batches_def chunksize_def)
  from create_datastore_upsert_failure[OF run_second_upsert_fails,
      of "PDict [(''resource_id'', PStr ''r1''), (''force'', PBool True),
                 (''method'', PStr ''upsert''),
                 (''records'', PList (replicate 10000 (PDict [])))]"
         "''id''" "ExternalError ''refused''"]
  obtain url path pre post where
    tr: "snd ?run =
           [] @ pre @ [(upsert_call (PStr ''r1'') (replicate 10000 (PDict [])),
                        Raised (ExternalError ''refused''))] @ post"
    and pre: "clean pre"
    and post: "(\<exists>ec. post = [(Close_file path, Raised ec)]) \<or>
               (\<exists>out. post = [(Close_file path, Ok), (Unlink path, out)])"
    by (auto simp: run_second_upsert_fails upsert_call_def)
  have "clean post"
    using tr post by (auto simp: run_second_upsert_fails upsert_call_def)
  with tr pre have "\<exists>pre post. snd ?run =
        [] @ pre @ [(upsert_call (PStr ''r1'') (replicate 10000 (PDict [])),
                     Raised (ExternalError ''refused''))] @ post \<and>
      clean pre \<and> clean post"
    by blast
  then show ?thesis
    by (simp add: run_second_upsert_fails nb upsert_call_def)
qed

text \<open>
  C3, as the claim states it, fails: when the downloaded file cannot be opened, the upload
  fails with the \<^verbatim>\<open>HDXError\<close> and the file is not unlinked, since the \<^verbatim>\<open>finally\<close> clause
  unlinks under \<^verbatim>\<open>if f:\<close> only.
\<close>

theorem create_datastore_leaves_file_counterexample:
  "create_datastore env_open_fails rec1 (PList []) PNone [] =
     (Inl (HDXError ''Upload to datastore of %s failed!'' [PStr ''http://x/y.csv'']
             (Some (ExternalError ''permission denied''))),
      [(Log_debug ''Downloading %s'' [PStr ''http://x/y.csv''], Ok),
       (Download_file (PStr ''http://x/y.csv'') PNone, Ok),
       (Write_to_hdx ''datastore_create''
          (PDict [(''resource_id'', PStr ''r1''), (''force'', PBool True),
                  (''fields'', PList []), (''primary_key'', PNone)]) ''id'', Ok),
       (Open_file ''/tmp/y.csv'', Raised (ExternalError ''permission denied''))]) \<and>
   (Unlink ''/tmp/y.csv'', Ok)
     \<notin> set (snd (create_datastore env_open_fails rec1 (PList []) PNone []))"
  by (simp add: create_datastore_def download_def hdx_write_to_hdx_def perform_def log_debug_def
        env_open_fails_def const_env_def rec1_def)

lemma uploads_only_no_open: "uploads_only body \<Longrightarrow> (Open_file path, out) \<notin> set body"
  by (auto simp: uploads_only_def list_all_iff)

text \<open>
  C3, amended. Whenever \<^verbatim>\<open>create_datastore\<close> has opened the downloaded file, the last thing
  it does, whether the parse and the upload succeed or fail, is the cleanup of that file:
  it calls \<^verbatim>\<open>f.close()\<close> and, when that returns, \<^verbatim>\<open>os.unlink(path)\<close>. The file is deleted
  when that last call returns.
\<close>

theorem create_datastore_unlinks_opened_file:
  assumes run: "create_datastore env r schema primary_key tr = (res, tr')"
    and opened: "(Open_file path, Ok) \<in> set (drop (length tr) tr')"
  shows "\<exists>pre post.
           tr' = tr @ pre @ post \<and>
           ((\<exists>ec. post = [(Close_file path, Raised ec)]) \<or>
            (\<exists>out. post = [(Close_file path, Ok), (Unlink path, out)]))"
  using run
proof (cases rule: create_datastore_cases)
  case (csv_failed url d path' e)
  let ?pre = "[(Log_debug ''Downloading %s'' [url], Ok), (Download_file url PNone, Ok),
               (Write_to_hdx ''datastore_create'' d ''id'', Ok),
               (Open_file path', Ok), (Csv_read path', Raised e)]"
  from csv_failed obtain post where tr': "tr' = (tr @ ?pre) @ post"
    and shape: "(\<exists>ec. post = [(Close_file path', Raised ec)]) \<or>
         (\<exists>out. post = [(Close_file path', Ok), (Unlink path', out)])"
    by (rule finally_cleanup_post)
  from opened tr' shape have "path' = path" by auto
  with tr' shape have "tr' = tr @ ?pre @ post \<and>
      ((\<exists>ec. post = [(Close_file path, Raised ec)]) \<or>
       (\<exists>out. post = [(Close_file path, Ok), (Unlink path, out)]))"
    by simp
  then show ?thesis by blast
next
  case (upsert_failed url d path' body p e)
  let ?pre = "[(Log_debug ''Downloading %s'' [url], Ok), (Download_file url PNone, Ok),
               (Write_to_hdx ''datastore_create'' d ''id'', Ok),
               (Open_file path', Ok), (Csv_read path', Ok),
               (Log_debug ''Uploading data from %s to datastore'' [url], Ok)]
             @ body @ [(Write_to_hdx ''datastore_upsert'' p ''id'', Raised e)]"
  from upsert_failed(2) obtain post where tr': "tr' = (tr @ ?pre) @ post"
    and shape: "(\<exists>ec. post = [(Close_file path', Raised ec)]) \<or>
         (\<exists>out. post = [(Close_file path', Ok), (Unlink path', out)])"
    by (rule finally_cleanup_post) simp
  from opened tr' shape uploads_only_no_open[OF upsert_failed(1), of path Ok]
  have "path' = path" by auto
  with tr' shape have "tr' = tr @ ?pre @ post \<and>
      ((\<exists>ec. post = [(Close_file path, Raised ec)]) \<or>
       (\<exists>out. post = [(Close_file path, Ok), (Unlink path, out)]))"
    by simp
  then show ?thesis by blast
next
  case (uploaded url d path' body)
  let ?pre = "[(Log_debug ''Downloading %s'' [url], Ok), (Download_file url PNone, Ok),
               (Write_to_hdx ''datastore_create'' d ''id'', Ok),
               (Open_file path', Ok), (Csv_read path', Ok),
               (Log_debug ''Uploading data from %s to datastore'' [url], Ok)]
             @ body"
  from uploaded(2) obtain post where tr': "tr' = (tr @ ?pre) @ post"
    and shape: "(\<exists>ec. post = [(Close_file path', Raised ec)]) \<or>
         (\<exists>out. post = [(Close_file path', Ok), (Unlink path', out)])"
    by (rule finally_cleanup_post) simp
  from opened tr' shape uploads_only_no_open[OF uploaded(1), of path Ok]
  have "path' = path" by auto
  with tr' shape have "tr' = tr @ ?pre @ post \<and>
      ((\<exists>ec. post = [(Close_file path, Raised ec)]) \<or>
       (\<exists>out. post = [(Close_file path, Ok), (Unlink path, out)]))"
    by simp
  then show ?thesis by blast
qed (use opened in auto)

theorem create_datastore_unlinks_opened_file_witness:
  "\<exists>pre post.
     snd (create_datastore (env_upsert_and_unlink_fail (replicate 20001 (PDict []))) rec1
            (PList []) PNone []) = [] @ pre @ post \<and>
     ((\<exists>ec. post = [(Close_file ''/tmp/y.csv'', Raised ec)]) \<or>
      (\<exists>out. post = [(Close_file ''/tmp/y.csv'', Ok), (Unlink ''/tmp/y.csv'', out)]))"
proof -
  have run: "create_datastore (env_upsert_and_unlink_fail (replicate 20001 (PDict []))) rec1
               (PList []) PNone [] =
             (fst (create_datastore (env_upsert_and_unlink_fail (replicate 20001 (PDict [])))
                     rec1 (PList []) PNone []),
              snd (create_datastore (env_upsert_and_unlink_fail (replicate 20001 (PDict [])))
                     rec1 (PList []) PNone []))"
    by simp
  have opened: "(Open_file ''/tmp/y.csv'', Ok)
      \<in> set (drop (length ([] :: trace))
                (snd (create_datastore (env_upsert_and_unlink_fail (replicate 20001 (PDict [])))
                        rec1 (PList []) PNone [])))"
    by (simp add: create_datastore_def finally_cleanup_def download_def hdx_write_to_hdx_def
        perform_def log_debug_def env_upsert_and_unlink_fail_def env_second_upsert_fails_def
        const_env_def rec1_def upload_loop.simps chunksize_def)
  from create_datastore_unlinks_opened_file[OF run opened] show ?thesis .
qed

section \<open>Downloading\<close>

text \<open>
  C8. For a record whose \<open>url\<close> field is absent or empty, \<^verbatim>\<open>download\<close> raises
  \<^verbatim>\<open>HDXError('No URL to download!')\<close> and calls nothing (the trace is unchanged). For a
  record with a non-empty \<open>url\<close> it calls \<^verbatim>\<open>download_file\<close> once, and returns the url with
  the path that call answered, or raises what that call raised.
\<close>

theorem download_needs_url:
  assumes "data r = PDict d"
  shows
    "((map_of d ''url'' = None \<or> (\<exists>u. map_of d ''url'' = Some u \<and> \<not> truthy u)) \<longrightarrow>
        download env r path tr = (Inl (HDXError ''No URL to download!'' [] None), tr)) \<and>
     (\<forall>u. map_of d ''url'' = Some u \<and> truthy u \<longrightarrow>
        download env r path tr =
          (case ext_download_file env (tr @ [(Log_debug ''Downloading %s'' [u], Ok)]) u path of
             Inl e \<Rightarrow>
               (Inl e, tr @ [(Log_debug ''Downloading %s'' [u], Ok),
                             (Download_file u path, Raised e)])
           | Inr p \<Rightarrow>
               (Inr (u, p), tr @ [(Log_debug ''Downloading %s'' [u], Ok),
                                  (Download_file u path, Ok)])))"
  using assms
  by (auto simp: download_def perform_def log_debug_def split: sum.splits option.splits)

theorem download_needs_url_witness:
  "download env_all_ok rec_no_url PNone [] = (Inl (HDXError ''No URL to download!'' [] None), []) \<and>
   download env_all_ok rec1 PNone [] =
     (Inr (PStr ''http://x/y.csv'', ''/tmp/y.csv''),
      [(Log_debug ''Downloading %s'' [PStr ''http://x/y.csv''], Ok),
       (Download_file (PStr ''http://x/y.csv'') PNone, Ok)])"
  using download_needs_url[of rec_no_url "[(''id'', PStr ''r1''), (''url'', PStr [])]"
          env_all_ok PNone "[]"]
        download_needs_url[of rec1 "[(''id'', PStr ''r1''), (''url'', PStr ''http://x/y.csv'')]"
          env_all_ok PNone "[]"]
  by (simp add: rec_no_url_def rec1_def env_all_ok_def const_env_def)

section \<open>Searching\<close>

lemma logs_only_simps [simp]:
  "logs_only []"
  "logs_only ((ev, out) # evs) = (is_log ev \<and> out = Ok \<and> logs_only evs)"
  by (auto simp: logs_only_def)




text \<open>
  C10, as the claim states it, fails: for a response whose result is a message and not a
  dictionary, \<^verbatim>\<open>search_in_hdx\<close> raises \<^verbatim>\<open>AttributeError\<close>, and for a result with a true
  \<open>count\<close> and no \<open>results\<close> it raises \<^verbatim>\<open>KeyError\<close>, where the claim has the empty list
  or one resource per element.
\<close>

theorem search_in_hdx_malformed_counterexample:
  "search_in_hdx env_not_found ''ACLED'' [] [] =
     (Inl AttributeError,
      [(Read_from_hdx ''resource'' (PStr ''ACLED'') ''query'' None [], Ok)]) \<and>
   search_in_hdx env_count_only ''ACLED'' [] [] =
     (Inl (KeyError ''results''),
      [(Read_from_hdx ''resource'' (PStr ''ACLED'') ''query'' None [], Ok)])"
  by (simp add: search_in_hdx_def hdx_read_from_hdx_def perform_def env_not_found_def
        env_count_only_def const_env_def)

text \<open>
  C10, amended. For every remote search response whose result is absent or empty, or is a
  dictionary: \<^verbatim>\<open>search_in_hdx\<close> answers the empty list if the result is absent or empty,
  or if its \<open>count\<close> is missing, zero or otherwise false, whatever its \<open>results\<close> hold; with
  a true \<open>count\<close> and a list under \<open>results\<close> it answers one \<^verbatim>\<open>Resource\<close> per element, in
  the order of the list.
\<close>

theorem search_in_hdx_result:
  assumes "ext_read_from_hdx env tr ''resource'' (PStr query) ''query'' None [] =
             Inr (success, result)"
  shows
    "(\<not> truthy result \<longrightarrow> fst (search_in_hdx env query kwargs tr) = Inr []) \<and>
     (\<forall>d. result = PDict d \<and>
          (map_of d ''count'' = None \<or> (\<exists>c. map_of d ''count'' = Some c \<and> \<not> truthy c)) \<longrightarrow>
          fst (search_in_hdx env query kwargs tr) = Inr []) \<and>
     (\<forall>d c rs. result = PDict d \<and> map_of d ''count'' = Some c \<and> truthy c \<and>
          map_of d ''results'' = Some (PList rs) \<longrightarrow>
          fst (search_in_hdx env query kwargs tr) = Inr (map Resource rs))"
  using assms
  by (auto simp: search_in_hdx_def hdx_read_from_hdx_def perform_def log_debug_def)

theorem search_in_hdx_result_witness:
  "fst (search_in_hdx env_no_count ''ACLED'' [] []) = Inr [] \<and>
   fst (search_in_hdx env_two_of_five ''ACLED'' [] []) =
     Inr [Resource (PDict [(''id'', PStr ''a'')]), Resource (PDict [(''id'', PStr ''b'')])]"
  using search_in_hdx_result[of env_no_count "[]" "''ACLED''" True
          "PDict [(''results'', PList [PDict [(''id'', PStr ''a'')]])]" "[]"]
        search_in_hdx_result[of env_two_of_five "[]" "''ACLED''" True
          "PDict [(''count'', PInt 5),
                  (''results'', PList [PDict [(''id'', PStr ''a'')],
                                       PDict [(''id'', PStr ''b'')]])]" "[]"]
  by (simp add: env_no_count_def env_two_of_five_def const_env_def)

section \<open>Reading, updating and deleting\<close>

text \<open>
  C5. \<^verbatim>\<open>read_from_hdx\<close> makes one remote call, the \<open>show\<close> action of the resource type
  (\<open>resource_show\<close>) for the identifier. When the call succeeds it returns a resource
  whose data is the remote result; when the remote reports not-found it returns \<open>None\<close>
  and raises nothing; it raises only what the call itself raised.
\<close>

theorem read_from_hdx_outcomes:
  "(\<exists>out.
      snd (read_from_hdx env identifier tr) =
        tr @ [(Read_from_hdx ''resource'' (PStr identifier) ''id'' (Some ''resource_show'') [],
               out)]) \<and>
   (\<forall>result.
      ext_read_from_hdx env tr ''resource'' (PStr identifier) ''id'' (Some ''resource_show'') [] =
        Inr (True, result) \<longrightarrow>
      fst (read_from_hdx env identifier tr) = Inr (Some \<lparr>data = result\<rparr>)) \<and>
   (\<forall>msg.
      ext_read_from_hdx env tr ''resource'' (PStr identifier) ''id'' (Some ''resource_show'') [] =
        Inr (False, msg) \<longrightarrow>
      fst (read_from_hdx env identifier tr) = Inr None) \<and>
   (\<forall>e. fst (read_from_hdx env identifier tr) = Inl e \<longrightarrow>
      ext_read_from_hdx env tr ''resource'' (PStr identifier) ''id'' (Some ''resource_show'') [] =
        Inl e)"
  by (auto simp: read_from_hdx_def hdx_load_from_hdx_def hdx_read_from_hdx_def perform_def
        log_debug_def action_def actions_def Resource_def Let_def
        split: sum.splits prod.splits if_splits)

theorem read_from_hdx_outcomes_witness:
  "fst (read_from_hdx env_all_ok ''r1'' []) = Inr (Some \<lparr>data = PDict [(''id'', PStr ''r1'')]\<rparr>) \<and>
   fst (read_from_hdx env_not_found ''r1'' []) = Inr None \<and>
   snd (read_from_hdx env_not_found ''r1'' []) =
     [(Read_from_hdx ''resource'' (PStr ''r1'') ''id'' (Some ''resource_show'') [], Ok)]"
proof -
  have "snd (read_from_hdx env_not_found ''r1'' []) =
     [(Read_from_hdx ''resource'' (PStr ''r1'') ''id'' (Some ''resource_show'') [], Ok)]"
    by (simp add: read_from_hdx_def hdx_load_from_hdx_def hdx_read_from_hdx_def perform_def
          action_def actions_def env_not_found_def const_env_def)
  with read_from_hdx_outcomes[of env_all_ok "''r1''" "[]"]
       read_from_hdx_outcomes[of env_not_found "''r1''" "[]"]
  show ?thesis
    by (simp add: env_all_ok_def env_not_found_def const_env_def)
qed

text \<open>
  C6. For a record whose \<open>id\<close> field is absent or empty, \<^verbatim>\<open>update_in_hdx\<close> and
  \<^verbatim>\<open>delete_from_hdx\<close> both raise an \<^verbatim>\<open>HDXError\<close> without a cause, and no remote call
  has been made: the trace is unchanged.
\<close>

theorem update_delete_need_identifier:
  assumes "data r = PDict d"
    and "map_of d ''id'' = None \<or> (\<exists>v. map_of d ''id'' = Some v \<and> \<not> truthy v)"
  shows "\<exists>template args.
           update_in_hdx env r tr = (Inl (HDXError template args None), tr) \<and>
           delete_from_hdx env r tr = (Inl (HDXError template args None), tr)"
  using assms
  by (auto simp: update_in_hdx_def delete_from_hdx_def hdx_update_in_hdx_def
        hdx_delete_from_hdx_def identifier_of_def)

theorem update_delete_need_identifier_witness:
  "(\<exists>template args.
      update_in_hdx env_all_ok rec_no_id [] = (Inl (HDXError template args None), []) \<and>
      delete_from_hdx env_all_ok rec_no_id [] = (Inl (HDXError template args None), [])) \<and>
   (\<exists>template args.
      update_in_hdx env_all_ok rec_empty_id [] = (Inl (HDXError template args None), []) \<and>
      delete_from_hdx env_all_ok rec_empty_id [] = (Inl (HDXError template args None), []))"
  using update_delete_need_identifier[of rec_no_id "[(''name'', PStr ''Resource1'')]"
          env_all_ok "[]"]
        update_delete_need_identifier[of rec_empty_id "[(''id'', PStr [])]" env_all_ok "[]"]
  by (simp add: rec_no_id_def rec_empty_id_def)

section \<open>Updating the datastore\<close>

text \<open>
  C9. Each of the four update operations is \<^verbatim>\<open>delete_datastore\<close> followed by the create
  operation of the same name, for every environment, record, argument and trace.
\<close>

theorem update_datastore_is_delete_then_create:
  "update_datastore env r schema primary_key =
     followed_by (delete_datastore env r) (create_datastore env r schema primary_key) \<and>
   update_datastore_from_yaml_schema env r path =
     followed_by (delete_datastore env r) (create_datastore_from_yaml_schema env r path) \<and>
   update_datastore_for_topline env r =
     followed_by (delete_datastore env r) (create_datastore_for_topline env r) \<and>
   update_datastore_from_json_schema env r path =
     followed_by (delete_datastore env r) (create_datastore_from_json_schema env r path)"
  by (auto simp: fun_eq_iff followed_by_def update_datastore_def
        update_datastore_from_yaml_schema_def update_datastore_for_topline_def
        update_datastore_from_json_schema_def)

theorem update_datastore_is_delete_then_create_witness:
  "update_datastore env_all_ok rec1 (PList []) PNone [] =
     followed_by (delete_datastore env_all_ok rec1)
       (create_datastore env_all_ok rec1 (PList []) PNone) [] \<and>
   snd (update_datastore env_all_ok rec1 (PList []) PNone []) =
     [(Read_from_hdx ''datastore'' (PStr ''r1'') ''resource_id'' (Some ''datastore_delete'')
         [(''force'', PBool True)], Ok),
      (Log_debug ''Downloading %s'' [PStr ''http://x/y.csv''], Ok),
      (Download_file (PStr ''http://x/y.csv'') PNone, Ok),
      (Write_to_hdx ''datastore_create''
         (PDict [(''resource_id'', PStr ''r1''), (''force'', PBool True),
                 (''fields'', PList []), (''primary_key'', PNone)]) ''id'', Ok),
      (Open_file ''/tmp/y.csv'', Ok),
      (Csv_read ''/tmp/y.csv'', Ok),
      (Log_debug ''Uploading data from %s to datastore'' [PStr ''http://x/y.csv''], Ok),
      (upsert_call (PStr ''r1'') [PDict []], Ok),
      (Log_debug ''Uploading: %s'' [PInt 10000], Ok),
      (Close_file ''/tmp/y.csv'', Ok),
      (Unlink ''/tmp/y.csv'', Ok)]"
proof -
  have "snd (followed_by (delete_datastore env_all_ok rec1)
               (create_datastore env_all_ok rec1 (PList []) PNone) []) =
     [(Read_from_hdx ''datastore'' (PStr ''r1'') ''resource_id'' (Some ''datastore_delete'')
         [(''force'', PBool True)], Ok),
      (Log_debug ''Downloading %s'' [PStr ''http://x/y.csv''], Ok),
      (Download_file (PStr ''http://x/y.csv'') PNone, Ok),
      (Write_to_hdx ''datastore_create''
         (PDict [(''resource_id'', PStr ''r1''), (''force'', PBool True),
                 (''fields'', PList []), (''primary_key'', PNone)]) ''id'', Ok),
      (Open_file ''/tmp/y.csv'', Ok),
      (Csv_read ''/tmp/y.csv'', Ok),
      (Log_debug ''Uploading data from %s to datastore'' [PStr ''http://x/y.csv''], Ok),
      (upsert_call (PStr ''r1'') [PDict []], Ok),
      (Log_debug ''Uploading: %s'' [PInt 10000], Ok),
      (Close_file ''/tmp/y.csv'', Ok),
      (Unlink ''/tmp/y.csv'', Ok)]"
    by (simp add: followed_by_def delete_datastore_def create_datastore_def
          finally_cleanup_def download_def
          hdx_read_from_hdx_def hdx_write_to_hdx_def perform_def log_debug_def action_def
          actions_def env_all_ok_def const_env_def rec1_def upload_loop.simps chunksize_def
          upsert_call_def)
  with update_datastore_is_delete_then_create[of env_all_ok rec1 "PList []" PNone]
  show ?thesis by simp
qed

section \<open>Failures\<close>



lemma fail_stop_single [simp]: "fail_stop [(ev, out)]"
  by (cases out) simp_all


lemma ends_well_perform: "ends_well (perform ev x tr) tr"
  by (cases x) (simp_all add: ends_well_def perform_def)
























lemma raised_simps [simp]:
  "fst (raised out) \<noteq> None \<longleftrightarrow> isl (fst out)"
  "(\<exists>y. fst (raised out) = Some y) \<longleftrightarrow> isl (fst out)"
  "snd (raised out) = snd out"
  by (cases out; cases "fst out"; simp add: raised_def)+

















end
